theory Spec2Isabelle
  imports Complex_Main "HOL-Library.Word"
begin

section \<open>Deepgram streaming transcriber: endpointing, buffer, sender, supervisor\<close>

text \<open>
  A shallow embedding of \<^verbatim>\<open>vocode/streaming/transcriber/deepgram_transcriber.py\<close>.

  Conventions of the embedding.
  \<^item> Python numbers that measure time or confidence are floats in the source; here they are
    exact rationals (\<^typ>\<open>rat\<close>), so every statement about them is a statement about the
    formula the code evaluates, not about its rounding.
  \<^item> A Python \<^verbatim>\<open>str\<close> is a \<^typ>\<open>string\<close>: a list of characters with code points below 256.
  \<^item> A function without effects that can raise returns a sum type: \<open>Inl e\<close> is the exception
    \<open>e\<close>, \<open>Inr v\<close> the result \<open>v\<close>. Code with effects returns an outcome that carries the
    state reached, also when it raises.
  \<^item> Where Python's \<^verbatim>\<open>and\<close>/\<^verbatim>\<open>or\<close> return one of their operands, the model returns
    the truth value of that operand, which is all the caller (\<^verbatim>\<open>if speech_final:\<close>) looks at.
\<close>

subsection \<open>Exceptions\<close>

datatype py_error =
    IndexError
  | ValueError
  | ZeroDivisionError
  | JSONDecodeError
  | ConnectionError
  | ConnectionClosed
  | EndpointingNotSupported
  | DataError
  | RedisConnectionError

subsection \<open>Configuration\<close>

text \<open>
  Modelled from the spec: the classes of \<^verbatim>\<open>vocode.streaming.models\<close> are declared outside
  this file. The specification gives the audio encoding as a closed enumeration
  (linear PCM 16 or mu-law), and the endpointing configuration as absent (the default) or
  one of the variants time-based and punctuation-based, each with its silence cutoff in
  seconds. \<open>OtherEndpointingConfig\<close> is an instance of the base class that is neither
  variant, for which \<^verbatim>\<open>is_speech_final\<close> has its last line.
\<close>

datatype audio_encoding = LINEAR16 | MULAW

datatype endpointing_config =
    TimeEndpointingConfig rat
  | PunctuationEndpointingConfig rat
  | OtherEndpointingConfig

text \<open>
  Modelled from the spec: of \<^verbatim>\<open>DeepgramTranscriberConfig\<close>, declared outside this file, the
  fields that the methods below read.
\<close>

record transcriber_config =
  audio_encoding :: audio_encoding
  sampling_rate :: int
  downsampling :: "int option"
  endpointing_config :: "endpointing_config option"

subsection \<open>Recognition frames\<close>

text \<open>
  A decoded recognition frame that carries every field the receiver reads:
  \<^verbatim>\<open>start\<close>, \<^verbatim>\<open>duration\<close>, \<^verbatim>\<open>is_final\<close>, \<^verbatim>\<open>speech_final\<close>, and of
  \<^verbatim>\<open>channel.alternatives[0]\<close> the \<^verbatim>\<open>transcript\<close>, the \<^verbatim>\<open>confidence\<close> and, of each
  entry of \<^verbatim>\<open>words\<close>, its \<^verbatim>\<open>end\<close> time.
\<close>

record frame =
  start :: rat
  duration :: rat
  is_final :: bool
  speech_final :: bool
  transcript :: string
  confidence :: rat
  words :: "rat list"

subsection \<open>Strings\<close>

text \<open>\<^verbatim>\<open>str.isspace\<close> on one character, for code points below 256.\<close>

definition py_isspace :: "char \<Rightarrow> bool" where
  "py_isspace c =
     (let n = of_char c :: nat
      in (9 \<le> n \<and> n \<le> 13) \<or> (28 \<le> n \<and> n \<le> 32) \<or> n = 133 \<or> n = 160)"

text \<open>\<^verbatim>\<open>str.strip()\<close>: whitespace removed from both ends.\<close>

definition strip :: "string \<Rightarrow> string" where
  "strip s = dropWhile py_isspace (rev (dropWhile py_isspace (rev s)))"

text \<open>\<^verbatim>\<open>xs[-1]\<close>: the last element, \<^verbatim>\<open>IndexError\<close> on an empty sequence.\<close>

definition py_last :: "'a list \<Rightarrow> py_error + 'a" where
  "py_last xs = (if xs = [] then Inl IndexError else Inr (last xs))"

definition PUNCTUATION_TERMINATORS :: "char list" where
  "PUNCTUATION_TERMINATORS = [CHR ''.'', CHR ''!'', CHR ''?'']"

subsection \<open>The endpointing policy\<close>

text \<open>
  The silence test shared by the time-based and the punctuation-based branch:
  \<^verbatim>\<open>not transcript and current_buffer and (time_silent + duration) > cutoff\<close>.
\<close>

definition silence_exceeded :: "string \<Rightarrow> frame \<Rightarrow> rat \<Rightarrow> rat \<Rightarrow> bool" where
  "silence_exceeded current_buffer deepgram_response time_silent cutoff =
     (transcript deepgram_response = [] \<and> current_buffer \<noteq> [] \<and>
      time_silent + duration deepgram_response > cutoff)"

definition is_speech_final ::
  "transcriber_config \<Rightarrow> string \<Rightarrow> frame \<Rightarrow> rat \<Rightarrow> py_error + bool" where
  "is_speech_final cfg current_buffer deepgram_response time_silent =
     (case endpointing_config cfg of
        None \<Rightarrow>
          Inr (transcript deepgram_response \<noteq> [] \<and> speech_final deepgram_response)
      | Some (TimeEndpointingConfig cutoff) \<Rightarrow>
          Inr (silence_exceeded current_buffer deepgram_response time_silent cutoff)
      | Some (PunctuationEndpointingConfig cutoff) \<Rightarrow>
          (if transcript deepgram_response \<noteq> [] \<and> speech_final deepgram_response
           then (case py_last (strip (transcript deepgram_response)) of
                   Inl e \<Rightarrow> Inl e
                 | Inr c \<Rightarrow>
                     if c \<in> set PUNCTUATION_TERMINATORS then Inr True
                     else Inr (silence_exceeded current_buffer deepgram_response
                                 time_silent cutoff))
           else Inr (silence_exceeded current_buffer deepgram_response time_silent cutoff))
      | Some OtherEndpointingConfig \<Rightarrow> Inl EndpointingNotSupported)"

text \<open>
  The phrase of the specification, "the last non-whitespace character of the transcript",
  written without reference to \<open>strip\<close>: the last of the characters that are not
  whitespace, if there is one.
\<close>

definition spec_last_non_whitespace :: "string \<Rightarrow> char option" where
  "spec_last_non_whitespace s =
     (case filter (\<lambda>c. \<not> py_isspace c) s of [] \<Rightarrow> None | c # cs \<Rightarrow> Some (last (c # cs)))"

definition calculate_time_silent :: "frame \<Rightarrow> rat" where
  "calculate_time_silent data =
     (let end = start data + duration data
      in if words data \<noteq> [] then end - last (words data) else duration data)"

subsection \<open>Queues, emitted events and the transcriber object\<close>

text \<open>
  What the input queue holds: the NumPy \<^verbatim>\<open>int16\<close> array that \<^verbatim>\<open>send_audio\<close> builds from a
  linear-PCM chunk, the bytes of a chunk passed on unchanged, or the text of the control
  message put there by \<^verbatim>\<open>terminate\<close>.
\<close>

datatype queue_item =
    Samples "16 word list"
  | Bytes "8 word list"
  | Text string

text \<open>Python's \<^verbatim>\<open>len\<close>: array elements, bytes, or characters.\<close>

fun py_len :: "queue_item \<Rightarrow> nat" where
  "py_len (Samples xs) = length xs"
| "py_len (Bytes bs) = length bs"
| "py_len (Text s) = length s"

text \<open>
  Modelled from the spec: \<^verbatim>\<open>Transcription\<close> is declared outside this file; it carries the
  message text, the confidence and the is-final flag.
\<close>

record transcription =
  message :: string
  t_confidence :: rat
  t_is_final :: bool

text \<open>One recording into the four module-level histograms.\<close>

record latency_sample =
  avg_latency :: rat
  duration_sample :: rat
  max_latency :: rat
  min_latency :: rat

text \<open>
  The fields of \<^verbatim>\<open>self\<close> that the methods read or write, with the two queues of the base
  class and the histograms. \<open>base_terminated\<close> records that the base class was told to shut
  down. \<open>redis_up\<close> says whether the module-level \<^verbatim>\<open>redis_client\<close> reaches its server; no
  method changes it.
\<close>

record transcriber =
  transcriber_config :: transcriber_config
  ended :: bool
  audio_cursor :: rat
  input_queue :: "queue_item list"
  output_queue :: "transcription list"
  metrics :: "latency_sample list"
  base_terminated :: bool
  redis_up :: bool

subsection \<open>\<^verbatim>\<open>terminate\<close>\<close>

text \<open>\<^verbatim>\<open>json.dumps({"type": "CloseStream"})\<close>.\<close>

definition terminate_msg :: string where
  \<open>terminate_msg = ''{"type": "CloseStream"}''\<close>

text \<open>
  Modelled from the spec: \<^verbatim>\<open>BaseAsyncTranscriber.terminate\<close> is defined outside this file;
  the specification says that explicit termination "notifies the base transport shutdown".
  The model records the notification and touches neither queue nor flag.
\<close>

definition base_terminate :: "transcriber \<Rightarrow> transcriber" where
  "base_terminate st = st\<lparr>base_terminated := True\<rparr>"

definition terminate :: "transcriber \<Rightarrow> transcriber" where
  "terminate st =
     base_terminate
       (st\<lparr>input_queue := input_queue st @ [Text terminate_msg], ended := True\<rparr>)"

subsection \<open>\<^verbatim>\<open>send_audio\<close>\<close>

text \<open>
  \<^verbatim>\<open>np.frombuffer(chunk, dtype=np.int16)\<close>: consecutive byte pairs read as 16-bit values
  (low byte first), \<^verbatim>\<open>ValueError\<close> when the size is not a multiple of two.
\<close>

fun frombuffer_int16 :: "8 word list \<Rightarrow> py_error + 16 word list" where
  "frombuffer_int16 [] = Inr []"
| "frombuffer_int16 [b] = Inl ValueError"
| "frombuffer_int16 (lo # hi # bs) =
     (case frombuffer_int16 bs of
        Inl e \<Rightarrow> Inl e
      | Inr ws \<Rightarrow> Inr (word_of_nat (unat lo + 256 * unat hi) # ws))"

text \<open>
  \<^verbatim>\<open>audioop.ratecv(chunk, 2, 1, inrate, outrate, None)[0]\<close> belongs to the standard library;
  it is a parameter of the model: fragment, input rate and output rate give the resampled
  fragment or an error.
\<close>

type_synonym ratecv = "8 word list \<Rightarrow> int \<Rightarrow> int \<Rightarrow> py_error + 8 word list"

text \<open>
  Modelled from the spec: \<^verbatim>\<open>BaseAsyncTranscriber.send_audio\<close> is defined outside this file;
  the specification says that the producer's chunk is enqueued into the input queue, a FIFO
  hand-off channel without an upper bound.
\<close>

definition base_send_audio :: "transcriber \<Rightarrow> queue_item \<Rightarrow> transcriber" where
  "base_send_audio st item = st\<lparr>input_queue := input_queue st @ [item]\<rparr>"

text \<open>
  \<^verbatim>\<open>redis_client.publish("PersonAudio-audio", chunk)\<close> of the Redis client library: the call
  takes its connection, which fails when the server does not answer, and then encodes the
  message, which raises \<^verbatim>\<open>DataError\<close> for a message that is neither bytes nor text nor a
  number, so for every NumPy array. Otherwise the message is published and nothing of the
  transcriber changes.
\<close>

definition redis_publish :: "bool \<Rightarrow> queue_item \<Rightarrow> py_error option" where
  "redis_publish up msg =
     (if \<not> up then Some RedisConnectionError
      else (case msg of
              Samples arr \<Rightarrow> Some DataError
            | Bytes bs \<Rightarrow> None
            | Text t \<Rightarrow> None))"

text \<open>
  \<^verbatim>\<open>send_audio\<close>: a linear-PCM chunk is resampled when downsampling is configured and made
  an \<^verbatim>\<open>int16\<close> array, any other chunk is left as it is; the result is published on the Redis
  channel and then handed to the base class. An exception of any step ends the call.
\<close>

definition send_audio :: "ratecv \<Rightarrow> transcriber \<Rightarrow> 8 word list \<Rightarrow> py_error + transcriber" where
  "send_audio rc st chunk =
     (let cfg = transcriber_config st
      in case (if audio_encoding cfg = LINEAR16
               then (case (case downsampling cfg of
                             None \<Rightarrow> Inr chunk
                           | Some d \<Rightarrow>
                               if d \<noteq> 0
                               then rc chunk (sampling_rate cfg * d) (sampling_rate cfg)
                               else Inr chunk) of
                       Inl e \<Rightarrow> Inl e
                     | Inr chunk' \<Rightarrow>
                         (case frombuffer_int16 chunk' of
                            Inl e \<Rightarrow> Inl e
                          | Inr arr \<Rightarrow> Inr (Samples arr)))
               else Inr (Bytes chunk)) of
           Inl e \<Rightarrow> Inl e
         | Inr item \<Rightarrow>
             (case redis_publish (redis_up st) item of
                Some e \<Rightarrow> Inl e
              | None \<Rightarrow> Inr (base_send_audio st item)))"

subsection \<open>Outcomes of stateful code\<close>

text \<open>
  A piece of stateful code either returns, or raises an exception, each with the state it
  has reached; a connection attempt can also still be running when the schedule it is given
  ends (\<open>Pending\<close>).
\<close>

datatype 'a outcome = Returned 'a | Raised py_error 'a | Pending 'a

subsection \<open>The receiver\<close>

text \<open>The local variables of \<^verbatim>\<open>receiver\<close>, with their initial values.\<close>

record receiver_vars =
  buffer :: string
  buffer_avg_confidence :: rat
  num_buffer_utterances :: nat
  time_silent :: rat
  transcript_cursor :: rat

definition receiver_init :: receiver_vars where
  "receiver_init =
     \<lparr>buffer = [], buffer_avg_confidence = 0, num_buffer_utterances = 1,
      time_silent = 0, transcript_cursor = 0\<rparr>"

text \<open>
  The first \<^verbatim>\<open>if\<close> of the loop body: a final frame with a transcript and a positive
  confidence is appended to the buffer and weighed into its confidence. The count starts at
  one and is only incremented or set back to one, so the two divisions have non-zero
  divisors in every state the receiver reaches.
\<close>

definition accumulate :: "frame \<Rightarrow> receiver_vars \<Rightarrow> receiver_vars" where
  "accumulate data v =
     (if transcript data \<noteq> [] \<and> confidence data > 0 \<and> is_final data
      then v\<lparr>buffer := buffer v @ '' '' @ transcript data,
             buffer_avg_confidence :=
               (if buffer_avg_confidence v = 0 then confidence data
                else (buffer_avg_confidence v
                        + confidence data / of_nat (num_buffer_utterances v))
                     * (of_nat (num_buffer_utterances v)
                          / of_nat (num_buffer_utterances v + 1))),
             num_buffer_utterances := num_buffer_utterances v + 1\<rparr>
      else v)"

text \<open>
  The second \<^verbatim>\<open>if\<close>/\<^verbatim>\<open>elif\<close>/\<^verbatim>\<open>else\<close> of the loop body, given the decision of the policy.
\<close>

definition emit ::
  "bool \<Rightarrow> frame \<Rightarrow> transcriber \<times> receiver_vars \<Rightarrow> transcriber \<times> receiver_vars" where
  "emit speech_final_decision data sv =
     (let st = fst sv; v = snd sv
      in if speech_final_decision
         then (st\<lparr>output_queue := output_queue st @
                      [\<lparr>message = buffer v, t_confidence = buffer_avg_confidence v,
                        t_is_final = True\<rparr>]\<rparr>,
               v\<lparr>buffer := [], buffer_avg_confidence := 0, num_buffer_utterances := 1,
                 time_silent := 0\<rparr>)
         else if transcript data \<noteq> [] \<and> confidence data > 0
         then (st\<lparr>output_queue := output_queue st @
                      [\<lparr>message = buffer v, t_confidence = confidence data,
                        t_is_final = False\<rparr>]\<rparr>,
               v\<lparr>time_silent := calculate_time_silent data\<rparr>)
         else (st, v\<lparr>time_silent := time_silent v + duration data\<rparr>))"

text \<open>
  The loop body for one recognition frame: latency samples, the policy evaluated on the
  buffer as it is before this frame is appended, then \<open>accumulate\<close> and \<open>emit\<close>. An exception
  of the policy leaves the body after the samples are recorded.
\<close>

definition receiver_frame ::
  "frame \<Rightarrow> transcriber \<times> receiver_vars \<Rightarrow> (transcriber \<times> receiver_vars) outcome" where
  "receiver_frame data sv =
     (let st = fst sv; v = snd sv;
          cur_max_latency = audio_cursor st - transcript_cursor v;
          v1 = v\<lparr>transcript_cursor := start data + duration data\<rparr>;
          cur_min_latency = audio_cursor st - transcript_cursor v1;
          st1 = st\<lparr>metrics := metrics st @
                  [\<lparr>avg_latency = (cur_min_latency + cur_max_latency) / 2 * duration data,
                    duration_sample = duration data,
                    max_latency = cur_max_latency,
                    min_latency = max cur_min_latency 0\<rparr>]\<rparr>
      in case is_speech_final (transcriber_config st1) (buffer v1) data (time_silent v1) of
           Inl e \<Rightarrow> Raised e (st1, v1)
         | Inr decision \<Rightarrow> Returned (emit decision data (st1, accumulate data v1)))"

subsection \<open>One connection attempt\<close>

text \<open>
  The state of one call of \<^verbatim>\<open>process\<close>: the transcriber, the messages sent on the
  connection, the local variables of the receiver, and for each of the two loops whether it
  is suspended inside its body (it has passed its test \<^verbatim>\<open>while not self._ended\<close> and
  awaits the queue or the socket) or has left the loop.
\<close>

record attempt =
  self :: transcriber
  ws_sent :: "queue_item list"
  rv :: receiver_vars
  sender_alive :: bool
  receiver_alive :: bool

text \<open>
  What \<^verbatim>\<open>ws.recv()\<close> and \<^verbatim>\<open>json.loads\<close> make of the next inbound message: the receive call
  raises; or it delivers a text that cannot be decoded into a recognition frame
  (\<^verbatim>\<open>json.loads\<close> raises); or an object without the key \<^verbatim>\<open>is_final\<close>; or a recognition
  frame.
\<close>

datatype inbound = Recv_raises | Undecodable | No_is_final | Recognition frame

text \<open>
  What happens between two suspension points of the event loop during an attempt.
  The caller of the transcriber calls \<^verbatim>\<open>send_audio\<close> or \<^verbatim>\<open>terminate\<close>; the sender's wait on
  the queue times out; the sender is handed the head of the queue and sends it, the flag
  saying whether \<^verbatim>\<open>ws.send\<close> succeeds; the receiver is handed the next inbound message.
\<close>

datatype event =
    Caller_send_audio "8 word list"
  | Caller_terminate
  | Queue_get_timeout
  | Sender_iteration bool
  | Receiver_iteration inbound

text \<open>
  One iteration of \<^verbatim>\<open>sender\<close> from the item it was waiting for to its next loop test.
  With an empty queue the sender stays suspended. Whether \<^verbatim>\<open>ws.send\<close> succeeds is the
  environment's to say.
\<close>

definition sender ::
  "bool \<Rightarrow> attempt \<Rightarrow> attempt outcome" where
  "sender send_ok a =
     (case input_queue (self a) of
        [] \<Rightarrow> Returned a
      | data # rest \<Rightarrow>
          (let st = (self a)\<lparr>input_queue := rest\<rparr>;
               num_channels = 1;
               sample_width = 2;
               divisor = sampling_rate (transcriber_config st) * num_channels * sample_width
           in if divisor = 0 then Raised ZeroDivisionError (a\<lparr>self := st\<rparr>)
              else (let st' = st\<lparr>audio_cursor :=
                                   audio_cursor st + of_nat (py_len data) / of_int divisor\<rparr>
                    in if send_ok
                       then Returned (a\<lparr>self := st', ws_sent := ws_sent a @ [data],
                                        sender_alive := \<not> ended st'\<rparr>)
                       else Raised ConnectionClosed (a\<lparr>self := st'\<rparr>))))"

text \<open>
  One iteration of \<^verbatim>\<open>receiver\<close> from the message it was waiting for to its next loop test.
  Only the receive call is inside \<^verbatim>\<open>try\<close>.
\<close>

definition receiver :: "inbound \<Rightarrow> attempt \<Rightarrow> attempt outcome" where
  "receiver msg a =
     (case msg of
        Recv_raises \<Rightarrow> Returned (a\<lparr>receiver_alive := False\<rparr>)
      | Undecodable \<Rightarrow> Raised JSONDecodeError a
      | No_is_final \<Rightarrow> Returned (a\<lparr>receiver_alive := False\<rparr>)
      | Recognition data \<Rightarrow>
          (case receiver_frame data (self a, rv a) of
             Returned sv \<Rightarrow>
               Returned (a\<lparr>self := fst sv, rv := snd sv, receiver_alive := \<not> ended (fst sv)\<rparr>)
           | Raised e sv \<Rightarrow> Raised e (a\<lparr>self := fst sv, rv := snd sv\<rparr>)
           | Pending sv \<Rightarrow> Pending (a\<lparr>self := fst sv, rv := snd sv\<rparr>)))"

text \<open>
  One event. An exception of \<^verbatim>\<open>send_audio\<close> goes to its caller, not to the attempt. An event
  for a loop that has ended, and a timeout while the queue holds an item, change nothing.
\<close>

definition step :: "ratecv \<Rightarrow> event \<Rightarrow> attempt \<Rightarrow> attempt outcome" where
  "step rc ev a =
     (case ev of
        Caller_send_audio chunk \<Rightarrow>
          (case send_audio rc (self a) chunk of
             Inl e \<Rightarrow> Returned a
           | Inr st \<Rightarrow> Returned (a\<lparr>self := st\<rparr>))
      | Caller_terminate \<Rightarrow> Returned (a\<lparr>self := terminate (self a)\<rparr>)
      | Queue_get_timeout \<Rightarrow>
          (if sender_alive a \<and> input_queue (self a) = []
           then Returned (a\<lparr>sender_alive := False\<rparr>) else Returned a)
      | Sender_iteration send_ok \<Rightarrow> (if sender_alive a then sender send_ok a else Returned a)
      | Receiver_iteration msg \<Rightarrow> (if receiver_alive a then receiver msg a else Returned a))"

text \<open>
  \<^verbatim>\<open>asyncio.gather(sender(ws), receiver(ws))\<close> under a schedule of events: it returns when
  both loops have ended, raises the first exception of either, and is still pending when
  the schedule ends before that.
\<close>

fun gather :: "ratecv \<Rightarrow> attempt \<Rightarrow> event list \<Rightarrow> attempt outcome" where
  "gather rc a [] =
     (if \<not> sender_alive a \<and> \<not> receiver_alive a then Returned a else Pending a)"
| "gather rc a (ev # rest) =
     (if \<not> sender_alive a \<and> \<not> receiver_alive a then Returned a
      else (case step rc ev a of
              Returned a' \<Rightarrow> gather rc a' rest
            | Raised e a' \<Rightarrow> Raised e a'
            | Pending a' \<Rightarrow> Pending a'))"

text \<open>What the environment does to one attempt: the connection fails to open, or it opens
  and the events follow.\<close>

datatype attempt_script = Connect_fails | Connected "event list"

fun map_outcome :: "('a \<Rightarrow> 'b) \<Rightarrow> 'a outcome \<Rightarrow> 'b outcome" where
  "map_outcome f (Returned x) = Returned (f x)"
| "map_outcome f (Raised e x) = Raised e (f x)"
| "map_outcome f (Pending x) = Pending (f x)"

definition process :: "ratecv \<Rightarrow> transcriber \<Rightarrow> attempt_script \<Rightarrow> transcriber outcome" where
  "process rc st script =
     (let st0 = st\<lparr>audio_cursor := 0\<rparr>
      in case script of
           Connect_fails \<Rightarrow> Raised ConnectionError st0
         | Connected evs \<Rightarrow>
             map_outcome self
               (gather rc
                  \<lparr>self = st0, ws_sent = [], rv = receiver_init,
                   sender_alive = \<not> ended st0, receiver_alive = \<not> ended st0\<rparr> evs))"

subsection \<open>The supervisor\<close>

definition NUM_RESTARTS :: nat where
  "NUM_RESTARTS = 5"

text \<open>
  \<^verbatim>\<open>_run_loop\<close> from a given value of \<^verbatim>\<open>restarts\<close>; \<open>env n\<close> is what the environment does
  to the attempt made when \<^verbatim>\<open>restarts\<close> is \<open>n\<close>. The result is the number of calls of
  \<^verbatim>\<open>process\<close> started so far, counted from \<^verbatim>\<open>restarts = 0\<close>, and the outcome of the loop.
\<close>

function run_loop_from ::
  "ratecv \<Rightarrow> (nat \<Rightarrow> attempt_script) \<Rightarrow> nat \<Rightarrow> transcriber \<Rightarrow> nat \<times> transcriber outcome" where
  "run_loop_from rc env restarts st =
     (if \<not> ended st \<and> restarts < NUM_RESTARTS
      then (case process rc st (env restarts) of
              Returned st' \<Rightarrow> run_loop_from rc env (restarts + 1) st'
            | Raised e st' \<Rightarrow> (restarts + 1, Raised e st')
            | Pending st' \<Rightarrow> (restarts + 1, Pending st'))
      else (restarts, Returned st))"
  by pat_completeness auto
termination
  by (relation "measure (\<lambda>(rc, env, restarts, st). NUM_RESTARTS - restarts)") auto

declare run_loop_from.simps [simp del]

definition run_loop ::
  "ratecv \<Rightarrow> (nat \<Rightarrow> attempt_script) \<Rightarrow> transcriber \<Rightarrow> nat \<times> transcriber outcome" where
  "run_loop rc env st = run_loop_from rc env 0 st"

subsection \<open>The confidence formula of the specification\<close>

text \<open>
  The update as the specification words it: \<open>new = (old + confidence / n) \<times> (n / (n + 1))\<close>
  with \<open>n\<close> the fragment count before the increment, except that a weighted confidence of
  zero is replaced by the confidence of the fragment; then the count is incremented. The
  value for a sequence of fragment confidences is this step folded from the initial buffer.
\<close>

definition spec_confidence_step :: "rat \<times> nat \<Rightarrow> rat \<Rightarrow> rat \<times> nat" where
  "spec_confidence_step on c =
     (let old = fst on; n = snd on
      in (if old = 0 then c else (old + c / of_nat n) * (of_nat n / (of_nat n + 1)), n + 1))"

definition spec_weighted_confidence :: "rat list \<Rightarrow> rat \<times> nat" where
  "spec_weighted_confidence cs = foldl spec_confidence_step (0, 1) cs"

subsection \<open>Faults of an attempt\<close>

fun is_raised :: "'a outcome \<Rightarrow> bool" where
  "is_raised (Raised e x) = True"
| "is_raised (Returned x) = False"
| "is_raised (Pending x) = False"

text \<open>
  An event that raises nothing inside the attempt: a send that succeeds, a failing receive
  call, the end-of-stream message, a frame on which the policy returns a decision, and
  everything the caller does. (Whether the policy raises on a frame does not depend on the
  buffer or on the silence, see \<open>policy_raises_independent\<close>.)
\<close>

fun benign :: "transcriber_config \<Rightarrow> event \<Rightarrow> bool" where
  "benign cfg (Sender_iteration send_ok) = send_ok"
| "benign cfg (Receiver_iteration Undecodable) = False"
| "benign cfg (Receiver_iteration (Recognition data)) = (\<not> isl (is_speech_final cfg [] data 0))"
| "benign cfg ev = True"

fun recv_faults_only :: "transcriber_config \<Rightarrow> attempt_script \<Rightarrow> bool" where
  "recv_faults_only cfg Connect_fails = False"
| "recv_faults_only cfg (Connected evs) = (sampling_rate cfg \<noteq> 0 \<and> list_all (benign cfg) evs)"

subsection \<open>Example values and schedules\<close>

definition example_config :: "endpointing_config option \<Rightarrow> transcriber_config" where
  "example_config ec =
     \<lparr>audio_encoding = LINEAR16, sampling_rate = 16000, downsampling = None,
      endpointing_config = ec\<rparr>"

definition example_frame :: "string \<Rightarrow> rat \<Rightarrow> bool \<Rightarrow> bool \<Rightarrow> frame" where
  "example_frame t c fin sf =
     \<lparr>start = 0, duration = 6 / 10, is_final = fin, speech_final = sf, transcript = t,
      confidence = c, words = []\<rparr>"

definition example_transcriber :: "endpointing_config option \<Rightarrow> transcriber" where
  "example_transcriber ec =
     \<lparr>transcriber_config = example_config ec, ended = False, audio_cursor = 0,
      input_queue = [], output_queue = [], metrics = [], base_terminated = False,
      redis_up = True\<rparr>"

definition example_ratecv :: ratecv where
  "example_ratecv chunk inrate outrate = Inr chunk"

text \<open>
  The producer hands three chunks to \<^verbatim>\<open>send_audio\<close>, the sender is scheduled three times
  to forward a queue item, then its wait times out and the receive call fails, so that both
  loops end.
\<close>

definition three_chunks_schedule ::
  "8 word list \<Rightarrow> 8 word list \<Rightarrow> 8 word list \<Rightarrow> event list" where
  "three_chunks_schedule c1 c2 c3 =
     [Caller_send_audio c1, Caller_send_audio c2, Caller_send_audio c3,
      Sender_iteration True, Sender_iteration True, Sender_iteration True,
      Queue_get_timeout, Receiver_iteration Recv_raises]"

definition example_attempt :: "endpointing_config option \<Rightarrow> attempt" where
  "example_attempt ec =
     \<lparr>self = example_transcriber ec, ws_sent = [], rv = receiver_init,
      sender_alive = True, receiver_alive = True\<rparr>"

definition example_fragments :: "frame list" where
  "example_fragments =
     [example_frame ''one'' (9 / 10) True False, example_frame ''two'' (8 / 10) True False,
      example_frame ''three'' (7 / 10) True False]"

text \<open>
  Environments of the supervisor: in every attempt the receive call fails at once and the
  sender's wait times out; in every attempt the connection fails to open; in every attempt
  the first inbound message cannot be decoded.
\<close>

definition recv_error_schedule :: "nat \<Rightarrow> attempt_script" where
  "recv_error_schedule n = Connected [Receiver_iteration Recv_raises, Queue_get_timeout]"

definition connect_fails_schedule :: "nat \<Rightarrow> attempt_script" where
  "connect_fails_schedule n = Connect_fails"

definition undecodable_schedule :: "nat \<Rightarrow> attempt_script" where
  "undecodable_schedule n = Connected [Receiver_iteration Undecodable]"

section \<open>Properties\<close>

subsection \<open>Stripping and the last non-whitespace character\<close>

lemma hd_dropWhile_filter:
  "filter (\<lambda>x. \<not> P x) xs \<noteq> [] \<Longrightarrow> hd (dropWhile P xs) = hd (filter (\<lambda>x. \<not> P x) xs)"
  by (induction xs) auto

lemma filter_dropWhile_not:
  "filter (\<lambda>x. \<not> P x) (dropWhile P xs) = filter (\<lambda>x. \<not> P x) xs"
  by (induction xs) auto

lemma dropWhile_Nil_filter: "(dropWhile P xs = []) = (filter (\<lambda>x. \<not> P x) xs = [])"
  by (induction xs) auto

lemma last_dropWhile: "dropWhile P xs \<noteq> [] \<Longrightarrow> last (dropWhile P xs) = last xs"
  by (induction xs) auto

lemma filter_rev_Nil: "(filter Q (rev xs) = []) = (filter Q xs = [])"
  by (simp add: filter_empty_conv)

lemma strip_Nil: "(strip s = []) = (filter (\<lambda>c. \<not> py_isspace c) s = [])"
proof -
  have "(strip s = []) = (filter (\<lambda>c. \<not> py_isspace c) (rev (dropWhile py_isspace (rev s))) = [])"
    unfolding strip_def by (rule dropWhile_Nil_filter)
  also have "\<dots> = (filter (\<lambda>c. \<not> py_isspace c) (dropWhile py_isspace (rev s)) = [])"
    by (rule filter_rev_Nil)
  also have "\<dots> = (filter (\<lambda>c. \<not> py_isspace c) (rev s) = [])"
    by (simp only: filter_dropWhile_not)
  also have "\<dots> = (filter (\<lambda>c. \<not> py_isspace c) s = [])"
    by (rule filter_rev_Nil)
  finally show ?thesis .
qed

lemma last_strip:
  assumes "strip s \<noteq> []"
  shows "last (strip s) = last (filter (\<lambda>c. \<not> py_isspace c) s)"
proof -
  let ?P = py_isspace
  from assms have ne: "filter (\<lambda>c. \<not> ?P c) s \<noteq> []" by (simp add: strip_Nil)
  then have ne': "filter (\<lambda>c. \<not> ?P c) (rev s) \<noteq> []" by (simp add: filter_rev_Nil)
  then have dne: "dropWhile ?P (rev s) \<noteq> []"
    using dropWhile_Nil_filter[of ?P "rev s"] by blast
  have "last (strip s) = last (rev (dropWhile ?P (rev s)))"
    using assms unfolding strip_def by (rule last_dropWhile)
  also have "\<dots> = hd (dropWhile ?P (rev s))" using dne by (simp add: last_rev)
  also have "\<dots> = hd (filter (\<lambda>c. \<not> ?P c) (rev s))" using ne' by (rule hd_dropWhile_filter)
  also have "\<dots> = hd (rev (filter (\<lambda>c. \<not> ?P c) s))" by (simp only: rev_filter)
  also have "\<dots> = last (filter (\<lambda>c. \<not> ?P c) s)" using ne by (simp add: hd_rev)
  finally show ?thesis .
qed

lemma py_last_strip:
  "py_last (strip s) = (case spec_last_non_whitespace s of None \<Rightarrow> Inl IndexError | Some c \<Rightarrow> Inr c)"
proof (cases "strip s = []")
  case True
  then show ?thesis by (simp add: py_last_def spec_last_non_whitespace_def strip_Nil)
next
  case False
  then have "filter (\<lambda>c. \<not> py_isspace c) s \<noteq> []" by (simp add: strip_Nil)
  then obtain c cs where eq: "filter (\<lambda>c. \<not> py_isspace c) s = c # cs" by (cases "filter (\<lambda>c. \<not> py_isspace c) s") auto
  show ?thesis using False last_strip[OF False]
    by (simp add: py_last_def spec_last_non_whitespace_def eq)
qed

subsection \<open>The endpointing policy\<close>

text \<open>
  Claim C4. With no endpointing configuration, the policy decides to finalize exactly when
  the top transcript of the frame is not empty and the frame's \<^verbatim>\<open>speech_final\<close> flag is set,
  whatever the buffer and the accumulated silence are.
\<close>

theorem default_policy_iff:
  "endpointing_config cfg = None \<Longrightarrow>
   (is_speech_final cfg buf f silent = Inr True) =
   (transcript f \<noteq> [] \<and> speech_final f)"
  by (simp add: is_speech_final_def)

theorem default_policy_iff_witness:
  "endpointing_config (example_config None) = None \<and>
   is_speech_final (example_config None) [] (example_frame ''hello world'' (95 / 100) True True) 0
     = Inr True"
  using default_policy_iff [of "example_config None" "[]"
      "example_frame ''hello world'' (95 / 100) True True" 0]
  by (simp add: example_config_def example_frame_def)

text \<open>
  Claim C5. With a time-based endpointing configuration, the policy decides to finalize
  exactly when the top transcript of the frame is empty, the buffer is not empty, and the
  accumulated silence plus the duration of the frame is strictly greater than the cutoff.
\<close>

theorem time_policy_iff:
  "endpointing_config cfg = Some (TimeEndpointingConfig cutoff) \<Longrightarrow>
   (is_speech_final cfg buf f silent = Inr True) =
   (transcript f = [] \<and> buf \<noteq> [] \<and> silent + duration f > cutoff)"
  by (simp add: is_speech_final_def silence_exceeded_def)

theorem time_policy_iff_witness:
  "endpointing_config (example_config (Some (TimeEndpointingConfig 1)))
     = Some (TimeEndpointingConfig 1) \<and>
   is_speech_final (example_config (Some (TimeEndpointingConfig 1))) '' hi''
     (example_frame [] 0 False False) (6 / 10) = Inr True \<and>
   is_speech_final (example_config (Some (TimeEndpointingConfig 1))) '' hi''
     (example_frame [] 0 False False) 0 \<noteq> Inr True"
  using time_policy_iff [of "example_config (Some (TimeEndpointingConfig 1))" 1 "'' hi''"
      "example_frame [] 0 False False" "6 / 10"]
    time_policy_iff [of "example_config (Some (TimeEndpointingConfig 1))" 1 "'' hi''"
      "example_frame [] 0 False False" 0]
  by (simp add: example_config_def example_frame_def)

text \<open>
  Claim C6. With a punctuation-based endpointing configuration, the policy decides to
  finalize exactly when either the \<^verbatim>\<open>speech_final\<close> flag is set, the top transcript is not
  empty and its last non-whitespace character is one of \<^verbatim>\<open>.\<close>, \<^verbatim>\<open>!\<close>, \<^verbatim>\<open>?\<close>, or the top
  transcript is empty, the buffer is not empty and the accumulated silence plus the duration
  of the frame exceeds the cutoff. (On a transcript of
  whitespace only with the flag set neither side holds: the policy raises instead of
  deciding.)
\<close>

theorem punctuation_policy_iff:
  "endpointing_config cfg = Some (PunctuationEndpointingConfig cutoff) \<Longrightarrow>
   (is_speech_final cfg buf f silent = Inr True) =
   ((speech_final f \<and> transcript f \<noteq> [] \<and>
       (\<exists>c. spec_last_non_whitespace (transcript f) = Some c \<and>
            (c = CHR ''.'' \<or> c = CHR ''!'' \<or> c = CHR ''?'')))
    \<or> (transcript f = [] \<and> buf \<noteq> [] \<and> silent + duration f > cutoff))"
  by (auto simp add: is_speech_final_def silence_exceeded_def py_last_strip
      PUNCTUATION_TERMINATORS_def split: option.splits)

theorem punctuation_policy_iff_witness:
  "endpointing_config (example_config (Some (PunctuationEndpointingConfig 1)))
     = Some (PunctuationEndpointingConfig 1) \<and>
   is_speech_final (example_config (Some (PunctuationEndpointingConfig 1))) []
     (example_frame ''Is it? '' (9 / 10) True True) 0 = Inr True"
  using punctuation_policy_iff [of "example_config (Some (PunctuationEndpointingConfig 1))" 1
      "[]" "example_frame ''Is it? '' (9 / 10) True True" 0]
  by (simp add: example_config_def example_frame_def spec_last_non_whitespace_def
      py_isspace_def)

text \<open>
  Claim C10. The punctuation-based policy is not total: on a frame whose \<^verbatim>\<open>speech_final\<close>
  flag is set and whose top transcript is not empty but consists of whitespace only, the
  stripped transcript is empty, taking its last character raises \<^verbatim>\<open>IndexError\<close>, and no
  decision is returned.
\<close>

theorem punctuation_policy_raises:
  "endpointing_config cfg = Some (PunctuationEndpointingConfig cutoff) \<Longrightarrow>
   speech_final f \<Longrightarrow> transcript f \<noteq> [] \<Longrightarrow> list_all py_isspace (transcript f) \<Longrightarrow>
   is_speech_final cfg buf f silent = Inl IndexError"
proof -
  assume cfg: "endpointing_config cfg = Some (PunctuationEndpointingConfig cutoff)"
    and sf: "speech_final f" and ne: "transcript f \<noteq> []"
    and ws: "list_all py_isspace (transcript f)"
  from ws have "filter (\<lambda>c. \<not> py_isspace c) (transcript f) = []"
    by (simp add: filter_empty_conv list_all_iff)
  then have "strip (transcript f) = []" by (simp add: strip_Nil)
  then have "py_last (strip (transcript f)) = Inl IndexError" by (simp add: py_last_def)
  with cfg sf ne show ?thesis by (simp add: is_speech_final_def)
qed

theorem punctuation_policy_raises_witness:
  "endpointing_config (example_config (Some (PunctuationEndpointingConfig 1)))
     = Some (PunctuationEndpointingConfig 1) \<and>
   speech_final (example_frame ''  '' (9 / 10) True True) \<and>
   transcript (example_frame ''  '' (9 / 10) True True) \<noteq> [] \<and>
   list_all py_isspace (transcript (example_frame ''  '' (9 / 10) True True)) \<and>
   is_speech_final (example_config (Some (PunctuationEndpointingConfig 1))) []
     (example_frame ''  '' (9 / 10) True True) 0 = Inl IndexError"
  using punctuation_policy_raises [of "example_config (Some (PunctuationEndpointingConfig 1))" 1
      "example_frame ''  '' (9 / 10) True True" "[]" 0]
  by (simp add: example_config_def example_frame_def py_isspace_def)

subsection \<open>Termination requested twice\<close>

text \<open>
  Claim C1, as the code has it. Every call of \<^verbatim>\<open>terminate\<close> puts one \<^verbatim>\<open>CloseStream\<close>
  message on the input queue and sets the termination flag. After two calls the flag is
  set, as after one, and the state is the state after one call with a second
  \<^verbatim>\<open>CloseStream\<close> message at the end of the queue.
\<close>

theorem terminate_twice:
  "terminate (terminate st) =
     (terminate st)\<lparr>input_queue := input_queue (terminate st) @ [Text terminate_msg]\<rparr>
   \<and> input_queue (terminate st) = input_queue st @ [Text terminate_msg]
   \<and> ended (terminate st) \<and> ended (terminate (terminate st))"
  by (simp add: terminate_def base_terminate_def)

text \<open>
  Claim C1, as stated, fails: from the example transcriber with an empty queue, one call
  leaves one \<^verbatim>\<open>CloseStream\<close> message on the queue and two calls leave two, so the state
  after two calls is not the state after one.
\<close>

theorem terminate_twice_counterexample:
  "terminate (terminate (example_transcriber None)) \<noteq> terminate (example_transcriber None) \<and>
   input_queue (terminate (example_transcriber None)) = [Text terminate_msg] \<and>
   input_queue (terminate (terminate (example_transcriber None)))
     = [Text terminate_msg, Text terminate_msg]"
  by (simp add: terminate_def base_terminate_def example_transcriber_def)

subsection \<open>The audio-time cursor\<close>

lemma frombuffer_int16_even:
  "even (length bs) \<Longrightarrow> \<exists>ws. frombuffer_int16 bs = Inr ws \<and> 2 * length ws = length bs"
  by (induction bs rule: frombuffer_int16.induct) auto

lemma send_audio_linear16_raises:
  "audio_encoding (transcriber_config st) = LINEAR16 \<Longrightarrow> isl (send_audio rc st chunk)"
  by (simp add: send_audio_def redis_publish_def Let_def
      split: option.splits sum.splits queue_item.splits)

lemma send_audio_linear16:
  assumes "audio_encoding (transcriber_config st) = LINEAR16"
    and "downsampling (transcriber_config st) = None"
    and "even (length chunk)"
  shows "send_audio rc st chunk = Inl (if redis_up st then DataError else RedisConnectionError)"
proof -
  from frombuffer_int16_even[OF assms(3)] obtain ws
    where "frombuffer_int16 chunk = Inr ws" by blast
  with assms(1,2) show ?thesis
    by (simp add: send_audio_def redis_publish_def)
qed

lemma step_send_audio_linear16:
  "audio_encoding (transcriber_config (self a)) = LINEAR16 \<Longrightarrow>
   step rc (Caller_send_audio chunk) a = Returned a"
  using send_audio_linear16_raises[of "self a" rc chunk]
  by (cases "send_audio rc (self a) chunk") (simp_all add: step_def)

text \<open>
  Claim C2, evaluated on the code. With linear PCM configured, \<^verbatim>\<open>send_audio\<close> turns the
  chunk into an \<^verbatim>\<open>int16\<close> array and publishes the array on the Redis channel before it hands
  it to the base class; the publication raises, so every call of \<^verbatim>\<open>send_audio\<close> ends with an
  exception and puts nothing on the input queue. After the three calls the sender finds the
  queue empty, forwards nothing, and the audio-time cursor is still 0 when the attempt
  ends, not the 0.3 seconds of the claim.
\<close>

theorem audio_cursor_three_chunks:
  assumes enc: "audio_encoding (transcriber_config st) = LINEAR16"
    and live: "\<not> ended st" and empty: "input_queue st = []"
  shows "isl (send_audio rc st c1) \<and> isl (send_audio rc st c2) \<and> isl (send_audio rc st c3) \<and>
         process rc st (Connected (three_chunks_schedule c1 c2 c3))
           = Returned (st\<lparr>audio_cursor := 0\<rparr>)"
proof -
  let ?a = "\<lparr>self = st\<lparr>audio_cursor := 0\<rparr>, ws_sent = [], rv = receiver_init,
             sender_alive = True, receiver_alive = True\<rparr>"
  have enc': "audio_encoding (transcriber_config (self ?a)) = LINEAR16" using enc by simp
  have call: "step rc (Caller_send_audio c) ?a = Returned ?a" for c
    using enc' by (rule step_send_audio_linear16)
  have idle: "step rc (Sender_iteration True) ?a = Returned ?a"
    using empty by (simp add: step_def sender_def)
  have "process rc st (Connected (three_chunks_schedule c1 c2 c3))
          = Returned (st\<lparr>audio_cursor := 0\<rparr>)"
    using live empty call idle
    by (simp add: process_def three_chunks_schedule_def)
      (simp add: step_def receiver_def)
  with send_audio_linear16_raises[OF enc] show ?thesis by simp
qed

theorem audio_cursor_three_chunks_witness:
  "audio_encoding (transcriber_config (example_transcriber None)) = LINEAR16 \<and>
   send_audio example_ratecv (example_transcriber None) (replicate 3200 0) = Inl DataError \<and>
   map_outcome input_queue
     (process example_ratecv (example_transcriber None)
        (Connected (three_chunks_schedule
           (replicate 3200 0) (replicate 3200 0) (replicate 3200 0))))
   = Returned [] \<and>
   map_outcome audio_cursor
     (process example_ratecv (example_transcriber None)
        (Connected (three_chunks_schedule
           (replicate 3200 0) (replicate 3200 0) (replicate 3200 0))))
   = Returned 0"
proof -
  have err: "send_audio example_ratecv (example_transcriber None) (replicate 3200 0)
               = Inl DataError"
    using send_audio_linear16[of "example_transcriber None" "replicate 3200 0" example_ratecv]
    by (simp add: example_transcriber_def example_config_def)
  from audio_cursor_three_chunks [of "example_transcriber None" example_ratecv
      "replicate 3200 0" "replicate 3200 0" "replicate 3200 0"]
  have "process example_ratecv (example_transcriber None)
        (Connected (three_chunks_schedule
           (replicate 3200 0) (replicate 3200 0) (replicate 3200 0)))
      = Returned ((example_transcriber None)\<lparr>audio_cursor := 0\<rparr>)"
    by (simp add: example_transcriber_def example_config_def)
  with err show ?thesis
    by (simp add: example_transcriber_def example_config_def)
qed

subsection \<open>The receiver on one frame\<close>

text \<open>
  Claim C9. Under the default policy, from the empty buffer (no text, weighted confidence
  zero, fragment count one), the frame with transcript "hello world", confidence 0.95,
  \<^verbatim>\<open>is_final\<close> and \<^verbatim>\<open>speech_final\<close> set makes the receiver put exactly one transcription on
  the output queue, with message " hello world", confidence 0.95 and \<^verbatim>\<open>is_final\<close> true;
  afterwards the buffer is empty, the weighted confidence is zero, the fragment count is
  back at its initial value one, and the accumulated silence is zero.
\<close>

theorem hello_world_scenario:
  assumes "endpointing_config (transcriber_config (self a)) = None"
    and "buffer (rv a) = []" and "buffer_avg_confidence (rv a) = 0"
    and "num_buffer_utterances (rv a) = 1"
    and "transcript data = ''hello world''" and "confidence data = 95 / 100"
    and "is_final data" and "speech_final data"
  shows "\<exists>a'. receiver (Recognition data) a = Returned a' \<and>
           output_queue (self a') = output_queue (self a) @
             [\<lparr>message = '' hello world'', t_confidence = 95 / 100, t_is_final = True\<rparr>] \<and>
           buffer (rv a') = [] \<and> buffer_avg_confidence (rv a') = 0 \<and>
           num_buffer_utterances (rv a') = 1 \<and> time_silent (rv a') = 0"
  using assms
  by (simp add: receiver_def receiver_frame_def is_speech_final_def accumulate_def emit_def
      Let_def)

theorem hello_world_scenario_witness:
  "receiver (Recognition (example_frame ''hello world'' (95 / 100) True True))
     (example_attempt None) =
   Returned ((example_attempt None)
     \<lparr>self := (example_transcriber None)
        \<lparr>output_queue :=
           [\<lparr>message = '' hello world'', t_confidence = 95 / 100, t_is_final = True\<rparr>],
         metrics := [\<lparr>avg_latency = - (18 / 100), duration_sample = 6 / 10, max_latency = 0,
                      min_latency = 0\<rparr>]\<rparr>,
      rv := receiver_init\<lparr>transcript_cursor := 6 / 10\<rparr>\<rparr>)"
  using hello_world_scenario [of "example_attempt None"
      "example_frame ''hello world'' (95 / 100) True True"]
  by (simp add: example_attempt_def example_transcriber_def example_config_def
      example_frame_def receiver_init_def receiver_def receiver_frame_def is_speech_final_def
      accumulate_def emit_def Let_def)

subsection \<open>The weighted confidence\<close>

lemma receiver_frame_fragment:
  assumes "transcript data \<noteq> []" "confidence data > 0" "is_final data"
    and "is_speech_final (transcriber_config st) (buffer v) data (time_silent v) = Inr decision"
    and "0 < num_buffer_utterances v"
  shows "\<exists>st' v'. receiver_frame data (st, v) = Returned (st', v') \<and>
           (if decision
            then output_queue st' = output_queue st @
                   [\<lparr>message = buffer v @ '' '' @ transcript data,
                     t_confidence =
                       (if buffer_avg_confidence v = 0 then confidence data
                        else (buffer_avg_confidence v
                                + confidence data / of_nat (num_buffer_utterances v))
                             * (of_nat (num_buffer_utterances v)
                                  / (of_nat (num_buffer_utterances v) + 1))),
                     t_is_final = True\<rparr>] \<and>
                 buffer_avg_confidence v' = 0 \<and> num_buffer_utterances v' = 1
            else buffer_avg_confidence v' =
                   (if buffer_avg_confidence v = 0 then confidence data
                    else (buffer_avg_confidence v
                            + confidence data / of_nat (num_buffer_utterances v))
                         * (of_nat (num_buffer_utterances v)
                              / (of_nat (num_buffer_utterances v) + 1))) \<and>
                 num_buffer_utterances v' = num_buffer_utterances v + 1)"
  using assms
  by (simp add: receiver_frame_def accumulate_def emit_def Let_def)

lemma policy_not_final:
  assumes "endpointing_config cfg \<noteq> Some OtherEndpointingConfig"
    and "transcript f \<noteq> []" and "\<not> speech_final f"
  shows "is_speech_final cfg buf f silent = Inr False"
  using assms
  by (simp add: is_speech_final_def silence_exceeded_def
      split: option.splits endpointing_config.splits)

lemma step_fragment:
  assumes cfg: "endpointing_config (transcriber_config (self a)) \<noteq> Some OtherEndpointingConfig"
    and frag: "transcript f \<noteq> []" "confidence f > 0" "is_final f" "\<not> speech_final f"
    and alive: "receiver_alive a" and live: "\<not> ended (self a)"
  shows "\<exists>a'. step rc (Receiver_iteration (Recognition f)) a = Returned a' \<and>
           transcriber_config (self a') = transcriber_config (self a) \<and>
           receiver_alive a' \<and> \<not> ended (self a') \<and>
           (buffer_avg_confidence (rv a'), num_buffer_utterances (rv a')) =
             spec_confidence_step
               (buffer_avg_confidence (rv a), num_buffer_utterances (rv a)) (confidence f)"
proof -
  have pol: "is_speech_final (transcriber_config (self a)) (buffer (rv a)) f (time_silent (rv a))
               = Inr False"
    using cfg frag(1,4) by (rule policy_not_final)
  show ?thesis
    using pol frag alive live
    by (simp add: step_def receiver_def receiver_frame_def accumulate_def emit_def Let_def
        spec_confidence_step_def)
qed

lemma gather_fragments:
  assumes "endpointing_config (transcriber_config (self a)) \<noteq> Some OtherEndpointingConfig"
    and "list_all (\<lambda>f. transcript f \<noteq> [] \<and> confidence f > 0 \<and> is_final f \<and> \<not> speech_final f) fs"
    and "receiver_alive a" and "\<not> ended (self a)"
  shows "\<exists>a'. gather rc a (map (\<lambda>f. Receiver_iteration (Recognition f)) fs) = Pending a' \<and>
           (buffer_avg_confidence (rv a'), num_buffer_utterances (rv a')) =
             foldl spec_confidence_step
               (buffer_avg_confidence (rv a), num_buffer_utterances (rv a)) (map confidence fs)"
  using assms
proof (induction fs arbitrary: a)
  case Nil
  then show ?case by simp
next
  case (Cons f fs)
  from Cons.prems have f: "transcript f \<noteq> []" "confidence f > 0" "is_final f" "\<not> speech_final f"
    and rest: "list_all (\<lambda>f. transcript f \<noteq> [] \<and> confidence f > 0 \<and> is_final f \<and> \<not> speech_final f) fs"
    by simp_all
  from step_fragment[OF Cons.prems(1) f Cons.prems(3,4), of rc] obtain a1 where
    st: "step rc (Receiver_iteration (Recognition f)) a = Returned a1"
    and c1: "transcriber_config (self a1) = transcriber_config (self a)"
    and al: "receiver_alive a1" and li: "\<not> ended (self a1)"
    and val: "(buffer_avg_confidence (rv a1), num_buffer_utterances (rv a1)) =
             spec_confidence_step
               (buffer_avg_confidence (rv a), num_buffer_utterances (rv a)) (confidence f)"
    by blast
  from Cons.prems(1) c1
  have c1': "endpointing_config (transcriber_config (self a1)) \<noteq> Some OtherEndpointingConfig"
    by simp
  from Cons.IH[OF c1' rest al li] obtain a' where
    g: "gather rc a1 (map (\<lambda>f. Receiver_iteration (Recognition f)) fs) = Pending a'"
    and v: "(buffer_avg_confidence (rv a'), num_buffer_utterances (rv a')) =
             foldl spec_confidence_step
               (buffer_avg_confidence (rv a1), num_buffer_utterances (rv a1)) (map confidence fs)"
    by blast
  have "gather rc a (map (\<lambda>f. Receiver_iteration (Recognition f)) (f # fs)) = Pending a'"
    using st g Cons.prems(3) by simp
  moreover have "(buffer_avg_confidence (rv a'), num_buffer_utterances (rv a')) =
             foldl spec_confidence_step
               (buffer_avg_confidence (rv a), num_buffer_utterances (rv a))
               (map confidence (f # fs))"
    using v val by simp
  ultimately show ?case by blast
qed

text \<open>
  Claim C7. First part: when the receiver processes a final frame with a non-empty top
  transcript and a positive confidence, in a state whose fragment count is at least one
  (as it always is), and the policy returns a decision, the weighted
  confidence becomes \<open>(old + confidence / n) \<times> (n / (n + 1))\<close> with \<open>n\<close> the fragment count
  before the frame, or the confidence of the frame when the old value is zero, and the count
  becomes \<open>n + 1\<close>; on a decision to finalize this value is the confidence of the emitted
  transcription and the buffer is reset. Second part: while no frame finalizes, the value
  reached from the empty buffer is the formula of the specification folded over the
  confidences of the frames, whatever their transcripts, times and words, and whatever the
  rest of the state is.
\<close>

theorem weighted_confidence:
  "(transcript data \<noteq> [] \<and> confidence data > 0 \<and> is_final data \<and>
    is_speech_final (transcriber_config st) (buffer v) data (time_silent v) = Inr decision \<and>
    0 < num_buffer_utterances v
    \<longrightarrow>
    (\<exists>st' v'. receiver_frame data (st, v) = Returned (st', v') \<and>
           (if decision
            then output_queue st' = output_queue st @
                   [\<lparr>message = buffer v @ '' '' @ transcript data,
                     t_confidence =
                       (if buffer_avg_confidence v = 0 then confidence data
                        else (buffer_avg_confidence v
                                + confidence data / of_nat (num_buffer_utterances v))
                             * (of_nat (num_buffer_utterances v)
                                  / (of_nat (num_buffer_utterances v) + 1))),
                     t_is_final = True\<rparr>] \<and>
                 buffer_avg_confidence v' = 0 \<and> num_buffer_utterances v' = 1
            else buffer_avg_confidence v' =
                   (if buffer_avg_confidence v = 0 then confidence data
                    else (buffer_avg_confidence v
                            + confidence data / of_nat (num_buffer_utterances v))
                         * (of_nat (num_buffer_utterances v)
                              / (of_nat (num_buffer_utterances v) + 1))) \<and>
                 num_buffer_utterances v' = num_buffer_utterances v + 1)))
   \<and>
   (endpointing_config (transcriber_config (self a)) \<noteq> Some OtherEndpointingConfig \<and>
    list_all (\<lambda>f. transcript f \<noteq> [] \<and> confidence f > 0 \<and> is_final f \<and> \<not> speech_final f) fs \<and>
    receiver_alive a \<and> \<not> ended (self a) \<and>
    buffer_avg_confidence (rv a) = 0 \<and> num_buffer_utterances (rv a) = 1
    \<longrightarrow>
    (\<exists>a'. gather rc a (map (\<lambda>f. Receiver_iteration (Recognition f)) fs) = Pending a' \<and>
          (buffer_avg_confidence (rv a'), num_buffer_utterances (rv a')) =
             spec_weighted_confidence (map confidence fs)))"
  apply (intro conjI impI)
  subgoal using receiver_frame_fragment[of data st v decision] by blast
  subgoal using gather_fragments[of a fs rc] by (simp add: spec_weighted_confidence_def)
  done

theorem weighted_confidence_witness:
  "spec_weighted_confidence (map confidence example_fragments) = (33 / 40, 4) \<and>
   (\<exists>a'. gather example_ratecv (example_attempt None)
            (map (\<lambda>f. Receiver_iteration (Recognition f)) example_fragments) = Pending a' \<and>
          (buffer_avg_confidence (rv a'), num_buffer_utterances (rv a')) = (33 / 40, 4)) \<and>
   (\<exists>st' v'. receiver_frame (example_frame ''two'' (8 / 10) True False)
               (example_transcriber None,
                receiver_init\<lparr>buffer := '' one'', buffer_avg_confidence := 9 / 10,
                              num_buffer_utterances := 2\<rparr>) = Returned (st', v') \<and>
             buffer_avg_confidence v' = 13 / 15 \<and> num_buffer_utterances v' = 3)"
proof -
  have w: "spec_weighted_confidence (map confidence example_fragments) = (33 / 40, 4)"
    by (simp add: example_fragments_def example_frame_def spec_weighted_confidence_def
        spec_confidence_step_def)
  have pol: "is_speech_final (transcriber_config (example_transcriber None))
       (buffer (receiver_init\<lparr>buffer := '' one'', buffer_avg_confidence := 9 / 10,
                              num_buffer_utterances := 2\<rparr>))
       (example_frame ''two'' (8 / 10) True False)
       (time_silent (receiver_init\<lparr>buffer := '' one'', buffer_avg_confidence := 9 / 10,
                              num_buffer_utterances := 2\<rparr>)) = Inr False"
    by (simp add: is_speech_final_def example_transcriber_def example_config_def
        example_frame_def)
  have hyps: "endpointing_config (transcriber_config (self (example_attempt None)))
        \<noteq> Some OtherEndpointingConfig \<and>
      list_all (\<lambda>f. transcript f \<noteq> [] \<and> confidence f > 0 \<and> is_final f \<and> \<not> speech_final f)
        example_fragments \<and>
      receiver_alive (example_attempt None) \<and> \<not> ended (self (example_attempt None)) \<and>
      buffer_avg_confidence (rv (example_attempt None)) = 0 \<and>
      num_buffer_utterances (rv (example_attempt None)) = 1"
    by (simp add: example_attempt_def example_transcriber_def example_config_def
        example_fragments_def example_frame_def receiver_init_def)
  note inst = weighted_confidence [of "example_frame ''two'' (8 / 10) True False"
      "example_transcriber None"
      "receiver_init\<lparr>buffer := '' one'', buffer_avg_confidence := 9 / 10,
                    num_buffer_utterances := 2\<rparr>" False
      "example_attempt None" example_fragments example_ratecv]
  from inst hyps w have seq: "\<exists>a'. gather example_ratecv (example_attempt None)
            (map (\<lambda>f. Receiver_iteration (Recognition f)) example_fragments) = Pending a' \<and>
          (buffer_avg_confidence (rv a'), num_buffer_utterances (rv a')) = (33 / 40, 4)"
    by simp
  have fr: "transcript (example_frame ''two'' (8 / 10) True False) \<noteq> [] \<and>
     confidence (example_frame ''two'' (8 / 10) True False) > 0 \<and>
     is_final (example_frame ''two'' (8 / 10) True False) \<and>
     0 < num_buffer_utterances
           (receiver_init\<lparr>buffer := '' one'', buffer_avg_confidence := 9 / 10,
                          num_buffer_utterances := 2\<rparr>)"
    by (simp add: example_frame_def)
  from inst fr pol have one: "\<exists>st' v'. receiver_frame (example_frame ''two'' (8 / 10) True False)
               (example_transcriber None,
                receiver_init\<lparr>buffer := '' one'', buffer_avg_confidence := 9 / 10,
                              num_buffer_utterances := 2\<rparr>) = Returned (st', v') \<and>
             buffer_avg_confidence v' = 13 / 15 \<and> num_buffer_utterances v' = 3"
    by (simp add: receiver_init_def example_frame_def)
  from w seq one show ?thesis by blast
qed

subsection \<open>The supervisor\<close>

lemma policy_raises_independent:
  "isl (is_speech_final cfg buf f silent) = isl (is_speech_final cfg [] f 0)"
  by (simp add: is_speech_final_def py_last_def
      split: option.splits endpointing_config.splits)

lemma send_audio_config:
  "send_audio rc st chunk = Inr st' \<Longrightarrow> transcriber_config st' = transcriber_config st"
  by (auto simp add: send_audio_def base_send_audio_def Let_def
      split: if_splits option.splits sum.splits)

lemma receiver_frame_config:
  "receiver_frame data (st, v) = Returned sv \<Longrightarrow> transcriber_config (fst sv) = transcriber_config st"
  by (auto simp add: receiver_frame_def emit_def Let_def split: sum.splits if_splits)

lemma step_config:
  "step rc ev a = Returned a' \<Longrightarrow> transcriber_config (self a') = transcriber_config (self a)"
  by (cases ev)
    (auto simp add: step_def sender_def receiver_def terminate_def base_terminate_def Let_def
      dest: send_audio_config receiver_frame_config
      split: if_splits sum.splits list.splits inbound.splits outcome.splits)

lemma receiver_frame_not_pending: "receiver_frame data sv \<noteq> Pending x"
  by (simp add: receiver_frame_def Let_def split: sum.splits)

lemma step_benign:
  assumes "benign (transcriber_config (self a)) ev"
    and "sampling_rate (transcriber_config (self a)) \<noteq> 0"
  shows "\<exists>a'. step rc ev a = Returned a'"
proof (cases ev)
  case (Receiver_iteration msg)
  show ?thesis
  proof (cases msg)
    case (Recognition data)
    from assms(1) Receiver_iteration Recognition
    have "\<not> isl (is_speech_final (transcriber_config (self a)) (buffer (rv a)) data
                   (time_silent (rv a)))"
      using policy_raises_independent[of "transcriber_config (self a)" "buffer (rv a)" data
          "time_silent (rv a)"] by simp
    then obtain d where "is_speech_final (transcriber_config (self a)) (buffer (rv a)) data
                   (time_silent (rv a)) = Inr d"
      by (cases "is_speech_final (transcriber_config (self a)) (buffer (rv a)) data
                   (time_silent (rv a))") auto
    then show ?thesis using Receiver_iteration Recognition
      by (simp add: step_def receiver_def receiver_frame_def Let_def)
  qed (use assms Receiver_iteration in \<open>simp_all add: step_def receiver_def\<close>)
next
  case (Sender_iteration ok)
  then show ?thesis using assms
    by (simp add: step_def sender_def Let_def split: list.splits)
qed (simp_all add: step_def split: sum.splits)

lemma gather_benign:
  assumes "list_all (benign (transcriber_config (self a))) evs"
    and "sampling_rate (transcriber_config (self a)) \<noteq> 0"
  shows "(\<exists>a'. gather rc a evs = Returned a' \<and>
               transcriber_config (self a') = transcriber_config (self a))
         \<or> (\<exists>a'. gather rc a evs = Pending a')"
  using assms
proof (induction evs arbitrary: a)
  case Nil
  then show ?case by simp
next
  case (Cons ev evs)
  show ?case
  proof (cases "\<not> sender_alive a \<and> \<not> receiver_alive a")
    case True
    then show ?thesis by simp
  next
    case False
    from Cons.prems have b: "benign (transcriber_config (self a)) ev"
      and bs: "list_all (benign (transcriber_config (self a))) evs" by simp_all
    from step_benign[OF b Cons.prems(2), of rc] obtain a1 where
      st: "step rc ev a = Returned a1" by blast
    then have c: "transcriber_config (self a1) = transcriber_config (self a)"
      by (rule step_config)
    from Cons.IH[of a1] bs Cons.prems(2) c
    have "(\<exists>a'. gather rc a1 evs = Returned a' \<and>
               transcriber_config (self a') = transcriber_config (self a1))
         \<or> (\<exists>a'. gather rc a1 evs = Pending a')" by simp
    with False st c show ?thesis by auto
  qed
qed

lemma process_benign:
  assumes "recv_faults_only (transcriber_config st) script"
  shows "(\<exists>st'. process rc st script = Returned st' \<and>
                transcriber_config st' = transcriber_config st)
         \<or> (\<exists>st'. process rc st script = Pending st')"
proof (cases script)
  case Connect_fails
  with assms show ?thesis by simp
next
  case (Connected evs)
  let ?a = "\<lparr>self = st\<lparr>audio_cursor := 0\<rparr>, ws_sent = [], rv = receiver_init,
             sender_alive = \<not> ended (st\<lparr>audio_cursor := 0\<rparr>),
             receiver_alive = \<not> ended (st\<lparr>audio_cursor := 0\<rparr>)\<rparr>"
  from assms Connected
  have "list_all (benign (transcriber_config (self ?a))) evs"
    and "sampling_rate (transcriber_config (self ?a)) \<noteq> 0" by simp_all
  from gather_benign[OF this, of rc]
  show ?thesis using Connected
    by (auto simp add: process_def Let_def)
qed

lemma run_loop_from_benign:
  "\<forall>n. recv_faults_only (transcriber_config st) (env n) \<Longrightarrow>
   \<not> is_raised (snd (run_loop_from rc env restarts st))"
proof (induction rc env restarts st rule: run_loop_from.induct)
  case (1 rc env restarts st)
  show ?case
  proof (cases "\<not> ended st \<and> restarts < NUM_RESTARTS")
    case False
    then show ?thesis by (auto simp add: run_loop_from.simps[of rc env restarts st])
  next
    case True
    from "1.prems" have "recv_faults_only (transcriber_config st) (env restarts)" by simp
    from process_benign[OF this, of rc]
    show ?thesis
    proof
      assume "\<exists>st'. process rc st (env restarts) = Returned st' \<and>
                transcriber_config st' = transcriber_config st"
      then obtain st' where p: "process rc st (env restarts) = Returned st'"
        and c: "transcriber_config st' = transcriber_config st" by blast
      from "1.IH"[OF True p] c "1.prems"
      have "\<not> is_raised (snd (run_loop_from rc env (restarts + 1) st'))" by simp
      with True p show ?thesis by (simp add: run_loop_from.simps[of rc env restarts st])
    next
      assume "\<exists>st'. process rc st (env restarts) = Pending st'"
      with True show ?thesis by (auto simp add: run_loop_from.simps[of rc env restarts st])
    qed
  qed
qed

lemma run_loop_from_bound:
  "restarts \<le> NUM_RESTARTS \<Longrightarrow> fst (run_loop_from rc env restarts st) \<le> NUM_RESTARTS"
proof (induction rc env restarts st rule: run_loop_from.induct)
  case (1 rc env restarts st)
  show ?case
  proof (cases "\<not> ended st \<and> restarts < NUM_RESTARTS")
    case False
    with "1.prems" show ?thesis by (auto simp add: run_loop_from.simps[of rc env restarts st])
  next
    case True
    show ?thesis
    proof (cases "process rc st (env restarts)")
      case (Returned st')
      from "1.IH"[OF True Returned] True
      have "fst (run_loop_from rc env (restarts + 1) st') \<le> NUM_RESTARTS" by simp
      with True Returned show ?thesis by (simp add: run_loop_from.simps[of rc env restarts st])
    next
      case (Raised e st')
      with True show ?thesis by (simp add: run_loop_from.simps[of rc env restarts st])
    next
      case (Pending st')
      with True show ?thesis by (simp add: run_loop_from.simps[of rc env restarts st])
    qed
  qed
qed

lemma run_loop_from_ended:
  "ended st \<Longrightarrow> run_loop_from rc env restarts st = (restarts, Returned st)"
  by (simp add: run_loop_from.simps[of rc env restarts st])

lemma run_loop_from_raised:
  "\<not> ended st \<Longrightarrow> restarts < NUM_RESTARTS \<Longrightarrow> process rc st (env restarts) = Raised e st' \<Longrightarrow>
   run_loop_from rc env restarts st = (restarts + 1, Raised e st')"
  by (simp add: run_loop_from.simps[of rc env restarts st])

lemma run_loop_from_chain:
  assumes steps: "\<forall>i<NUM_RESTARTS. process rc (sts i) (env i) = Returned (sts (Suc i)) \<and>
                     \<not> ended (sts (Suc i))"
    and first: "\<not> ended (sts 0)"
  shows "k \<le> NUM_RESTARTS \<Longrightarrow>
         run_loop_from rc env (NUM_RESTARTS - k) (sts (NUM_RESTARTS - k))
           = (NUM_RESTARTS, Returned (sts NUM_RESTARTS))"
proof (induction k)
  case 0
  show ?case by (simp add: run_loop_from.simps[of rc env NUM_RESTARTS])
next
  case (Suc k)
  let ?r = "NUM_RESTARTS - Suc k"
  from Suc.prems have r: "?r < NUM_RESTARTS" and nxt: "Suc ?r = NUM_RESTARTS - k" by simp_all
  have live: "\<not> ended (sts ?r)"
  proof (cases ?r)
    case 0
    with first show ?thesis by simp
  next
    case (Suc j)
    with r have "j < NUM_RESTARTS" by simp
    with steps Suc show ?thesis by simp
  qed
  from steps r have p: "process rc (sts ?r) (env ?r) = Returned (sts (Suc ?r))" by simp
  from Suc.IH Suc.prems nxt
  have "run_loop_from rc env (Suc ?r) (sts (Suc ?r)) = (NUM_RESTARTS, Returned (sts NUM_RESTARTS))"
    by simp
  with live r p show ?case by (simp add: run_loop_from.simps[of rc env ?r "sts ?r"])
qed

lemma run_loop_from_env:
  "\<forall>i<NUM_RESTARTS. env i = env' i \<Longrightarrow>
   run_loop_from rc env restarts st = run_loop_from rc env' restarts st"
proof (induction rc env restarts st rule: run_loop_from.induct)
  case (1 rc env restarts st)
  show ?case
  proof (cases "\<not> ended st \<and> restarts < NUM_RESTARTS")
    case False
    then show ?thesis
      by (auto simp add: run_loop_from.simps[of rc env restarts st]
          run_loop_from.simps[of rc env' restarts st])
  next
    case True
    with "1.prems" have same: "env restarts = env' restarts" by simp
    show ?thesis
    proof (cases "process rc st (env restarts)")
      case (Returned st')
      from "1.IH"[OF True Returned "1.prems"] True Returned same show ?thesis
        by (simp add: run_loop_from.simps[of rc env restarts st]
            run_loop_from.simps[of rc env' restarts st])
    next
      case (Raised e st')
      with True same show ?thesis
        by (simp add: run_loop_from.simps[of rc env restarts st]
            run_loop_from.simps[of rc env' restarts st])
    next
      case (Pending st')
      with True same show ?thesis
        by (simp add: run_loop_from.simps[of rc env restarts st]
            run_loop_from.simps[of rc env' restarts st])
    qed
  qed
qed

lemma step_not_pending: "step rc ev a \<noteq> Pending x"
  by (cases ev)
    (auto simp add: step_def sender_def receiver_def receiver_frame_def Let_def
      split: if_splits sum.splits list.splits inbound.splits outcome.splits)

lemma gather_append_pending:
  "gather rc a pre = Pending a1 \<Longrightarrow> gather rc a (pre @ evs) = gather rc a1 evs"
proof (induction pre arbitrary: a)
  case Nil
  then show ?case by (cases evs) (auto split: if_splits)
next
  case (Cons ev pre)
  show ?case
  proof (cases "step rc ev a")
    case (Returned a')
    with Cons.prems have "gather rc a' pre = Pending a1" by (simp split: if_splits)
    from Cons.IH[OF this] Returned Cons.prems show ?thesis by (auto split: if_splits)
  next
    case (Raised e a')
    with Cons.prems show ?thesis by (simp split: if_splits)
  next
    case (Pending a')
    then show ?thesis by (simp add: step_not_pending)
  qed
qed

lemma process_recv_error:
  "process rc (example_transcriber None) (recv_error_schedule n) = Returned (example_transcriber None)"
  by (simp add: process_def recv_error_schedule_def example_transcriber_def step_def
      receiver_def)

lemma run_loop_recv_errors:
  "run_loop rc recv_error_schedule (example_transcriber None) = (5, Returned (example_transcriber None))"
proof -
  have steps: "\<forall>i<NUM_RESTARTS.
      process rc ((\<lambda>i. example_transcriber None) i) (recv_error_schedule i)
        = Returned ((\<lambda>i. example_transcriber None) (Suc i)) \<and>
      \<not> ended ((\<lambda>i. example_transcriber None) (Suc i))"
    by (simp add: process_recv_error) (simp add: example_transcriber_def)
  have first: "\<not> ended ((\<lambda>i. example_transcriber None) 0)"
    by (simp add: example_transcriber_def)
  from run_loop_from_chain[OF steps first, of NUM_RESTARTS]
  show ?thesis by (simp add: run_loop_def NUM_RESTARTS_def)
qed

text \<open>
  Claim C3, as the code has it. An error of the receive call is not fatal: it ends the
  receiver loop of the attempt and raises nothing. A run in which every attempt opens its
  connection and meets no fault but errors of the receive call (every send succeeds, every
  message is decoded, the policy returns a decision on every frame, the sampling rate is
  not zero) raises nothing and makes at most five attempts. A failure to open the
  connection raises out of \<^verbatim>\<open>process\<close>; a message that cannot be decoded, handed to a
  waiting receiver, raises out of the gathered loops; and an exception of an attempt leaves
  the run loop at that attempt, without a retry.
\<close>

theorem transport_errors:
  "receiver Recv_raises a = Returned (a\<lparr>receiver_alive := False\<rparr>)
   \<and> ((\<forall>n. recv_faults_only (transcriber_config st) (env n)) \<longrightarrow>
        \<not> is_raised (snd (run_loop rc env st)) \<and> fst (run_loop rc env st) \<le> NUM_RESTARTS)
   \<and> process rc st Connect_fails = Raised ConnectionError (st\<lparr>audio_cursor := 0\<rparr>)
   \<and> (gather rc a pre = Pending a1 \<and> receiver_alive a1 \<longrightarrow>
        gather rc a (pre @ Receiver_iteration Undecodable # post) = Raised JSONDecodeError a1)
   \<and> (\<not> ended st \<and> restarts < NUM_RESTARTS \<and> process rc st (env restarts) = Raised e st' \<longrightarrow>
        run_loop_from rc env restarts st = (restarts + 1, Raised e st'))"
proof (intro conjI impI)
  show "receiver Recv_raises a = Returned (a\<lparr>receiver_alive := False\<rparr>)"
    by (simp add: receiver_def)
next
  assume "\<forall>n. recv_faults_only (transcriber_config st) (env n)"
  then show "\<not> is_raised (snd (run_loop rc env st))"
    unfolding run_loop_def by (rule run_loop_from_benign)
next
  show "fst (run_loop rc env st) \<le> NUM_RESTARTS"
    unfolding run_loop_def by (rule run_loop_from_bound) simp
next
  show "process rc st Connect_fails = Raised ConnectionError (st\<lparr>audio_cursor := 0\<rparr>)"
    by (simp add: process_def)
next
  assume h: "gather rc a pre = Pending a1 \<and> receiver_alive a1"
  then have "gather rc a (pre @ Receiver_iteration Undecodable # post)
               = gather rc a1 (Receiver_iteration Undecodable # post)"
    by (simp add: gather_append_pending)
  also from h have "\<dots> = Raised JSONDecodeError a1"
    by (simp add: step_def receiver_def)
  finally show "gather rc a (pre @ Receiver_iteration Undecodable # post)
                  = Raised JSONDecodeError a1" .
next
  assume "\<not> ended st \<and> restarts < NUM_RESTARTS \<and> process rc st (env restarts) = Raised e st'"
  then show "run_loop_from rc env restarts st = (restarts + 1, Raised e st')"
    by (simp add: run_loop_from_raised)
qed

theorem transport_errors_witness:
  "(\<forall>n. recv_faults_only (transcriber_config (example_transcriber None)) (recv_error_schedule n))
   \<and> run_loop example_ratecv recv_error_schedule (example_transcriber None)
       = (5, Returned (example_transcriber None))
   \<and> \<not> is_raised (snd (run_loop example_ratecv recv_error_schedule (example_transcriber None)))
   \<and> run_loop_from example_ratecv connect_fails_schedule 0 (example_transcriber None)
       = (1, Raised ConnectionError (example_transcriber None))
   \<and> gather example_ratecv
        \<lparr>self = example_transcriber None, ws_sent = [], rv = receiver_init,
         sender_alive = True, receiver_alive = True\<rparr>
        ([Caller_send_audio [0, 0]] @ Receiver_iteration Undecodable # [])
       = Raised JSONDecodeError
           \<lparr>self = example_transcriber None, ws_sent = [],
            rv = receiver_init, sender_alive = True, receiver_alive = True\<rparr>"
proof -
  have h1: "\<forall>n. recv_faults_only (transcriber_config (example_transcriber None))
                 (recv_error_schedule n)"
    by (simp add: recv_error_schedule_def example_transcriber_def example_config_def)
  have h2: "\<not> ended (example_transcriber None) \<and> 0 < NUM_RESTARTS \<and>
     process example_ratecv (example_transcriber None) (connect_fails_schedule 0)
       = Raised ConnectionError (example_transcriber None)"
    by (simp add: process_def connect_fails_schedule_def example_transcriber_def
        NUM_RESTARTS_def)
  have h3: "gather example_ratecv
        \<lparr>self = example_transcriber None, ws_sent = [], rv = receiver_init,
         sender_alive = True, receiver_alive = True\<rparr> [Caller_send_audio [0, 0]]
      = Pending \<lparr>self = example_transcriber None, ws_sent = [],
            rv = receiver_init, sender_alive = True, receiver_alive = True\<rparr>
      \<and> receiver_alive \<lparr>self = example_transcriber None,
            ws_sent = [], rv = receiver_init, sender_alive = True, receiver_alive = True\<rparr>"
    by (simp add: step_def send_audio_def redis_publish_def example_transcriber_def
        example_config_def)
  note inst = transport_errors [of
      "\<lparr>self = example_transcriber None, ws_sent = [], rv = receiver_init,
        sender_alive = True, receiver_alive = True\<rparr>"
      "example_transcriber None" recv_error_schedule example_ratecv
      "[Caller_send_audio [0, 0]]"
      "\<lparr>self = example_transcriber None, ws_sent = [],
        rv = receiver_init, sender_alive = True, receiver_alive = True\<rparr>" "[]"]
  note inst2 = transport_errors [of
      "\<lparr>self = example_transcriber None, ws_sent = [], rv = receiver_init,
        sender_alive = True, receiver_alive = True\<rparr>"
      "example_transcriber None" connect_fails_schedule example_ratecv
      "[]" "example_attempt None" "[]" 0 ConnectionError "example_transcriber None"]
  from inst h1 have a: "\<not> is_raised (snd (run_loop example_ratecv recv_error_schedule
       (example_transcriber None)))" by blast
  from inst h3 have b: "gather example_ratecv
        \<lparr>self = example_transcriber None, ws_sent = [], rv = receiver_init,
         sender_alive = True, receiver_alive = True\<rparr>
        ([Caller_send_audio [0, 0]] @ Receiver_iteration Undecodable # [])
       = Raised JSONDecodeError
           \<lparr>self = example_transcriber None, ws_sent = [],
            rv = receiver_init, sender_alive = True, receiver_alive = True\<rparr>" by blast
  from inst2 h2 have c: "run_loop_from example_ratecv connect_fails_schedule 0
       (example_transcriber None) = (1, Raised ConnectionError (example_transcriber None))"
    by simp
  from h1 a b c run_loop_recv_errors[of example_ratecv] show ?thesis by blast
qed

text \<open>
  Claim C3, as stated, fails: when the connection fails to open, and when the first inbound
  message cannot be decoded, the run loop raises at its first attempt.
\<close>

theorem transport_errors_counterexample:
  "run_loop example_ratecv connect_fails_schedule (example_transcriber None)
     = (1, Raised ConnectionError (example_transcriber None))
   \<and> run_loop example_ratecv undecodable_schedule (example_transcriber None)
     = (1, Raised JSONDecodeError (example_transcriber None))"
  by (simp add: run_loop_def run_loop_from.simps[of _ _ 0] process_def
      connect_fails_schedule_def undecodable_schedule_def example_transcriber_def
      NUM_RESTARTS_def step_def receiver_def)

text \<open>
  Claim C8. The budget is five. The run loop never starts more than five attempts. When
  the termination flag is set at a loop test, the loop returns there and starts no further
  attempt. When five consecutive attempts each end with the flag unset, the loop returns
  after exactly these five. What the environment would do to a sixth or later attempt has
  no influence on the run.
\<close>

theorem restart_budget:
  "NUM_RESTARTS = 5
   \<and> fst (run_loop rc env st) \<le> 5
   \<and> (ended st \<longrightarrow> run_loop_from rc env restarts st = (restarts, Returned st))
   \<and> (sts 0 = st \<and> \<not> ended st \<and>
      (\<forall>i<5. process rc (sts i) (env i) = Returned (sts (Suc i)) \<and> \<not> ended (sts (Suc i)))
      \<longrightarrow> run_loop rc env st = (5, Returned (sts 5)))
   \<and> ((\<forall>i<5. env i = env' i) \<longrightarrow> run_loop rc env st = run_loop rc env' st)"
proof (intro conjI impI)
  show "NUM_RESTARTS = 5" by (simp add: NUM_RESTARTS_def)
next
  have "fst (run_loop_from rc env 0 st) \<le> NUM_RESTARTS" by (rule run_loop_from_bound) simp
  then show "fst (run_loop rc env st) \<le> 5" by (simp add: run_loop_def NUM_RESTARTS_def)
next
  assume "ended st"
  then show "run_loop_from rc env restarts st = (restarts, Returned st)"
    by (rule run_loop_from_ended)
next
  assume h: "sts 0 = st \<and> \<not> ended st \<and>
      (\<forall>i<5. process rc (sts i) (env i) = Returned (sts (Suc i)) \<and> \<not> ended (sts (Suc i)))"
  then have steps: "\<forall>i<NUM_RESTARTS. process rc (sts i) (env i) = Returned (sts (Suc i)) \<and>
                     \<not> ended (sts (Suc i))"
    and first: "\<not> ended (sts 0)" by (simp_all add: NUM_RESTARTS_def)
  from run_loop_from_chain[OF steps first, of NUM_RESTARTS] h
  show "run_loop rc env st = (5, Returned (sts 5))"
    by (simp add: run_loop_def NUM_RESTARTS_def)
next
  assume "\<forall>i<5. env i = env' i"
  then have "\<forall>i<NUM_RESTARTS. env i = env' i" by (simp add: NUM_RESTARTS_def)
  then show "run_loop rc env st = run_loop rc env' st"
    unfolding run_loop_def by (rule run_loop_from_env)
qed

theorem restart_budget_witness:
  "run_loop example_ratecv recv_error_schedule (example_transcriber None)
     = (5, Returned (example_transcriber None))
   \<and> fst (run_loop example_ratecv recv_error_schedule (example_transcriber None)) \<le> 5
   \<and> run_loop_from example_ratecv recv_error_schedule 2 (terminate (example_transcriber None))
     = (2, Returned (terminate (example_transcriber None)))
   \<and> run_loop example_ratecv
       (\<lambda>n. if n < 5 then recv_error_schedule n else connect_fails_schedule n)
       (example_transcriber None)
     = (5, Returned (example_transcriber None))"
proof -
  have h: "(\<lambda>i. example_transcriber None) 0 = example_transcriber None \<and>
      \<not> ended (example_transcriber None) \<and>
      (\<forall>i<5. process example_ratecv ((\<lambda>i. example_transcriber None) i) (recv_error_schedule i)
                = Returned ((\<lambda>i. example_transcriber None) (Suc i)) \<and>
              \<not> ended ((\<lambda>i. example_transcriber None) (Suc i)))"
    using process_recv_error[of example_ratecv] by (simp add: example_transcriber_def)
  have e: "ended (terminate (example_transcriber None))"
    by (simp add: terminate_def base_terminate_def)
  note a = restart_budget [of example_ratecv recv_error_schedule "example_transcriber None"
      2 "\<lambda>i. example_transcriber None"
      "\<lambda>n. if n < 5 then recv_error_schedule n else connect_fails_schedule n"]
  note b = restart_budget [of example_ratecv recv_error_schedule
      "terminate (example_transcriber None)" 2 "\<lambda>i. example_transcriber None"
      recv_error_schedule]
  from a h have 1: "run_loop example_ratecv recv_error_schedule (example_transcriber None)
     = (5, Returned (example_transcriber None))" by blast
  from a have 2: "fst (run_loop example_ratecv recv_error_schedule (example_transcriber None)) \<le> 5"
    by blast
  from b e have 3: "run_loop_from example_ratecv recv_error_schedule 2
      (terminate (example_transcriber None)) = (2, Returned (terminate (example_transcriber None)))"
    by blast
  from a have "run_loop example_ratecv recv_error_schedule (example_transcriber None)
      = run_loop example_ratecv
          (\<lambda>n. if n < 5 then recv_error_schedule n else connect_fails_schedule n)
          (example_transcriber None)" by simp
  with 1 have 4: "run_loop example_ratecv
       (\<lambda>n. if n < 5 then recv_error_schedule n else connect_fails_schedule n)
       (example_transcriber None)
     = (5, Returned (example_transcriber None))" by simp
  from 1 2 3 4 show ?thesis by blast
qed

end
